theory Spec2Isabelle
  imports Main "HOL-Library.Code_Target_Numeral"
begin

section \<open>Third-party collaborators\<close>

text \<open>
  The repository is glue code around three libraries: golang-jwt (token parsing and
  verification), gin with encoding/json (request binding and responses) and gorm over
  SQLite (persistence). Their sources are not part of the repository. What they compute
  on bytes (base64url, JSON scanning, HMAC, RFC 3339 times, the clock) and the wording
  of most of their error messages is taken as a parameter, collected in the record
  \<open>deps\<close>; the control flow they document is written out below so that the
  repository's own functions can be traced through it.
  Byte slices and strings are both \<open>string\<close>. The hash functions of the HMAC methods
  are taken to be linked into the program, as they are with \<open>net/http\<close>.
\<close>

type_synonym time = int
  \<comment> \<open>an instant as an offset from Go's zero \<open>time.Time{}\<close>, which is 0\<close>

datatype json =
    JNull
  | JBool bool
  | JNumber string
  | JString string
  | JArray "json list"
  | JObject "(string \<times> json) list"

datatype scan_error =
    EOF
  | ErrUnexpectedEOF
  | SyntaxError_invalid_character string string
  | SyntaxError_exceeded_max_depth

datatype go_error =
    ScanError scan_error
  | UnmarshalTypeError string string
  | UnmarshalerError string
  | DriverError string
  | UniqueConstraintFailed string
  | ConvertingArgument string
  | ErrFull

datatype ValidationErrorFlag =
    ValidationErrorMalformed
  | ValidationErrorUnverifiable
  | ValidationErrorSignatureInvalid
  | ValidationErrorExpired
  | ValidationErrorIssuedAt
  | ValidationErrorNotValidYet
  | ValidationErrorClaimsInvalid

type_synonym ValidationError = "ValidationErrorFlag list"
  \<comment> \<open>the bit set \<open>ValidationError.Errors\<close>; the empty list is \<open>vErr.valid()\<close>\<close>

record 'c deps =
  decode_header :: "string \<Rightarrow> string option option"
    \<comment> \<open>base64url and JSON of the first segment: \<open>None\<close> when either fails, else
        the \<open>alg\<close> entry of the header when it is a string\<close>
  decode_claims :: "string \<Rightarrow> 'c option"
    \<comment> \<open>base64url and JSON of the second segment\<close>
  DecodeSegment :: "string \<Rightarrow> string option"
    \<comment> \<open>base64url of the third segment\<close>
  Claims_Valid :: "'c \<Rightarrow> ValidationError"
    \<comment> \<open>\<open>MapClaims.Valid()\<close> at the current time: exp, iat, nbf\<close>
  hmac :: "string \<Rightarrow> string \<Rightarrow> string \<Rightarrow> string"
    \<comment> \<open>algorithm name, key, message: the MAC\<close>
  verify_asym :: "string \<Rightarrow> string \<Rightarrow> string \<Rightarrow> string \<Rightarrow> bool"
    \<comment> \<open>\<open>Verify\<close> of the RSA, RSA-PSS, ECDSA and Ed25519 methods\<close>
  json_scan :: "string \<Rightarrow> scan_error + json \<times> string"
    \<comment> \<open>\<open>json.Decoder\<close> on the body: the first JSON value and the input it leaves
        unread behind that value, or the error it meets before a first value is complete\<close>
  Error :: "go_error \<Rightarrow> string"
    \<comment> \<open>\<open>err.Error()\<close> of the errors other than those of reading the body\<close>
  Time_UnmarshalJSON :: "json \<Rightarrow> time \<Rightarrow> string + time"
    \<comment> \<open>\<open>(*time.Time).UnmarshalJSON\<close>: the value read, the field before, the field after\<close>
  Now :: time

subsection \<open>golang-jwt: parsing and verifying a token\<close>

datatype SigningMethod =
    SigningMethodHMAC string
  | SigningMethodRSA string
  | SigningMethodRSAPSS string
  | SigningMethodECDSA string
  | SigningMethodEd25519
  | signingMethodNone

definition GetSigningMethod :: "string \<Rightarrow> SigningMethod option" where
  "GetSigningMethod alg =
    (if alg \<in> set [''HS256'', ''HS384'', ''HS512''] then Some (SigningMethodHMAC alg)
     else if alg \<in> set [''RS256'', ''RS384'', ''RS512''] then Some (SigningMethodRSA alg)
     else if alg \<in> set [''PS256'', ''PS384'', ''PS512''] then Some (SigningMethodRSAPSS alg)
     else if alg \<in> set [''ES256'', ''ES384'', ''ES512''] then Some (SigningMethodECDSA alg)
     else if alg = ''EdDSA'' then Some SigningMethodEd25519
     else if alg = ''none'' then Some signingMethodNone
     else None)"

record 'c Token =
  Raw :: string
  Method :: SigningMethod
  Header_alg :: string
  Claims :: 'c
  Signature :: string
  Valid :: bool

fun Split :: "string \<Rightarrow> char \<Rightarrow> string list" where
  "Split [] sep = [[]]"
| "Split (c # cs) sep =
    (if c = sep then [] # Split cs sep
     else (case Split cs sep of [] \<Rightarrow> [[c]] | p # ps \<Rightarrow> (c # p) # ps))"

definition ParseUnverified ::
  "'c deps \<Rightarrow> string \<Rightarrow> ValidationError + ('c Token \<times> string list)" where
  "ParseUnverified d tokenString =
    (case Split tokenString (CHR ''.'') of
       [p0, p1, p2] \<Rightarrow>
         (case decode_header d p0 of
            None \<Rightarrow> Inl [ValidationErrorMalformed]
          | Some alg \<Rightarrow>
              (case decode_claims d p1 of
                 None \<Rightarrow> Inl [ValidationErrorMalformed]
               | Some claims \<Rightarrow>
                   (case alg of
                      None \<Rightarrow> Inl [ValidationErrorUnverifiable]
                    | Some a \<Rightarrow>
                        (case GetSigningMethod a of
                           None \<Rightarrow> Inl [ValidationErrorUnverifiable]
                         | Some m \<Rightarrow>
                             Inr (\<lparr>Raw = tokenString, Method = m, Header_alg = a,
                                   Claims = claims, Signature = [], Valid = False\<rparr>,
                                  [p0, p1, p2])))))
     | _ \<Rightarrow> Inl [ValidationErrorMalformed])"

definition Verify ::
  "'c deps \<Rightarrow> SigningMethod \<Rightarrow> string \<Rightarrow> string \<Rightarrow> string \<Rightarrow> bool" where
  "Verify d m signingString signature key =
    (case m of
       SigningMethodHMAC alg \<Rightarrow>
         (case DecodeSegment d signature of
            None \<Rightarrow> False
          | Some sig \<Rightarrow> sig = hmac d alg key signingString)
     | signingMethodNone \<Rightarrow> False
     | SigningMethodRSA alg \<Rightarrow> verify_asym d alg signingString signature key
     | SigningMethodRSAPSS alg \<Rightarrow> verify_asym d alg signingString signature key
     | SigningMethodECDSA alg \<Rightarrow> verify_asym d alg signingString signature key
     | SigningMethodEd25519 \<Rightarrow> verify_asym d ''EdDSA'' signingString signature key)"

definition jwt_Parse ::
  "'c deps \<Rightarrow> string \<Rightarrow> ('c Token \<Rightarrow> string + string) \<Rightarrow> ValidationError + 'c Token" where
  "jwt_Parse d tokenString keyFunc =
    (case ParseUnverified d tokenString of
       Inl e \<Rightarrow> Inl e
     | Inr (token, parts) \<Rightarrow>
         (case keyFunc token of
            Inl e \<Rightarrow> Inl [ValidationErrorUnverifiable]
          | Inr key \<Rightarrow>
              (let vErr = Claims_Valid d (Claims token);
                   signingString = parts ! 0 @ ''.'' @ parts ! 1;
                   vErr' = (if Verify d (Method token) signingString (parts ! 2) key
                            then vErr else vErr @ [ValidationErrorSignatureInvalid])
               in if vErr' = [] then Inr (token\<lparr>Signature := parts ! 2, Valid := True\<rparr>)
                  else Inl vErr')))"

section \<open>auth.Protect\<close>

definition keyFunc :: "'c Token \<Rightarrow> string + string" where
  "keyFunc token =
    (case Method token of
       SigningMethodHMAC _ \<Rightarrow> Inr ''==signature==''
     | _ \<Rightarrow> Inl (''unexpected signing method: '' @ Header_alg token))"

definition Protect :: "'c deps \<Rightarrow> string \<Rightarrow> ValidationError option" where
  "Protect d tokenString =
    (case jwt_Parse d tokenString keyFunc of Inl err \<Rightarrow> Some err | Inr _ \<Rightarrow> None)"

section \<open>The todo package\<close>

subsection \<open>The record type\<close>

text \<open>
  \<open>gorm.Model\<close> is the library's struct of a surrogate key and three timestamps;
  \<open>Todo\<close> embeds it and adds \<open>Title\<close>, tagged \<open>json:"text"\<close>. \<open>DeletedAt\<close> is a
  nullable time: the instant and its \<open>Valid\<close> flag. \<open>ID\<close> is a Go \<open>uint\<close>; the
  decoder below keeps it under \<open>2 ^ 64\<close>.
\<close>

record Model =
  ID :: nat
  CreatedAt :: time
  UpdatedAt :: time
  DeletedAt :: "time \<times> bool"

record Todo = Model +
  Title :: string

definition zero_Todo :: Todo where
  "zero_Todo = \<lparr>ID = 0, CreatedAt = 0, UpdatedAt = 0, DeletedAt = (0, False), Title = []\<rparr>"

subsection \<open>encoding/json: storing a scanned value into a Todo\<close>

text \<open>
  The decoder matches an object key against the struct's field names, exactly first and
  then without regard to letter case. The embedded \<open>gorm.Model\<close> has no tag, so its
  fields are promoted and take part under their Go names. A key that matches no field
  is skipped. A value of the wrong JSON kind is remembered (the first one) and decoding
  goes on; an error of a field's own \<open>UnmarshalJSON\<close> stops decoding at once. Folding
  the ASCII letters is all the decoder's case folding does to these five names: none
  has a letter with a further case variant.
\<close>

datatype field = FTitle | FID | FCreatedAt | FUpdatedAt | FDeletedAt

definition typeFields :: "(string \<times> field) list" where
  "typeFields = [(''text'', FTitle), (''ID'', FID), (''CreatedAt'', FCreatedAt),
             (''UpdatedAt'', FUpdatedAt), (''DeletedAt'', FDeletedAt)]"

definition toLower :: "char \<Rightarrow> char" where
  "toLower c =
    (let n = (of_char c :: nat) in if 65 \<le> n \<and> n \<le> 90 then char_of (n + 32) else c)"

definition EqualFold :: "string \<Rightarrow> string \<Rightarrow> bool" where
  "EqualFold a b = (map toLower a = map toLower b)"

definition findField :: "string \<Rightarrow> field option" where
  "findField key =
    (case map_of typeFields key of
       Some f \<Rightarrow> Some f
     | None \<Rightarrow> map_option snd (find (\<lambda>(name, f). EqualFold name key) typeFields))"

fun kind :: "json \<Rightarrow> string" where
  "kind JNull = ''null''"
| "kind (JBool b) = ''bool''"
| "kind (JNumber lit) = ''number''"
| "kind (JString s) = ''string''"
| "kind (JArray vs) = ''array''"
| "kind (JObject kvs) = ''object''"

definition isDigit :: "char \<Rightarrow> bool" where
  "isDigit c = (48 \<le> (of_char c :: nat) \<and> (of_char c :: nat) \<le> 57)"

definition ParseUint :: "string \<Rightarrow> nat option" where
  "ParseUint lit =
    (if lit \<noteq> [] \<and> list_all isDigit lit then
       (let n = foldl (\<lambda>a c. 10 * a + (of_char c - 48)) (0 :: nat) lit
        in if n < 2 ^ 64 then Some n else None)
     else None)"

definition saveError :: "go_error option \<Rightarrow> go_error \<Rightarrow> go_error option" where
  "saveError saved err = (case saved of None \<Rightarrow> Some err | Some e \<Rightarrow> Some e)"

fun storeField ::
  "'c deps \<Rightarrow> field \<Rightarrow> json \<Rightarrow> Todo \<times> go_error option \<Rightarrow>
     go_error + (Todo \<times> go_error option)" where
  "storeField d FTitle v (t, saved) =
    (case v of
       JString s \<Rightarrow> Inr (t\<lparr>Title := s\<rparr>, saved)
     | JNull \<Rightarrow> Inr (t, saved)
     | _ \<Rightarrow> Inr (t, saveError saved (UnmarshalTypeError (kind v) ''Todo.text'')))"
| "storeField d FID v (t, saved) =
    (case v of
       JNumber lit \<Rightarrow>
         (case ParseUint lit of
            Some n \<Rightarrow> Inr (t\<lparr>ID := n\<rparr>, saved)
          | None \<Rightarrow>
              Inr (t, saveError saved (UnmarshalTypeError (''number '' @ lit) ''Todo.ID'')))
     | JNull \<Rightarrow> Inr (t, saved)
     | _ \<Rightarrow> Inr (t, saveError saved (UnmarshalTypeError (kind v) ''Todo.ID'')))"
| "storeField d FCreatedAt v (t, saved) =
    (case Time_UnmarshalJSON d v (CreatedAt t) of
       Inl e \<Rightarrow> Inl (UnmarshalerError e)
     | Inr tm \<Rightarrow> Inr (t\<lparr>CreatedAt := tm\<rparr>, saved))"
| "storeField d FUpdatedAt v (t, saved) =
    (case Time_UnmarshalJSON d v (UpdatedAt t) of
       Inl e \<Rightarrow> Inl (UnmarshalerError e)
     | Inr tm \<Rightarrow> Inr (t\<lparr>UpdatedAt := tm\<rparr>, saved))"
| "storeField d FDeletedAt v (t, saved) =
    (if v = JNull then Inr (t\<lparr>DeletedAt := (fst (DeletedAt t), False)\<rparr>, saved)
     else
       (case Time_UnmarshalJSON d v (fst (DeletedAt t)) of
          Inl e \<Rightarrow> Inl (UnmarshalerError e)
        | Inr tm \<Rightarrow> Inr (t\<lparr>DeletedAt := (tm, True)\<rparr>, saved)))"

fun object ::
  "'c deps \<Rightarrow> (string \<times> json) list \<Rightarrow> Todo \<times> go_error option \<Rightarrow>
     go_error + (Todo \<times> go_error option)" where
  "object d [] st = Inr st"
| "object d ((key, v) # kvs) st =
    (case findField key of
       None \<Rightarrow> object d kvs st
     | Some f \<Rightarrow>
         (case storeField d f v st of
            Inl e \<Rightarrow> Inl e
          | Inr st' \<Rightarrow> object d kvs st'))"

definition Unmarshal :: "'c deps \<Rightarrow> json \<Rightarrow> Todo \<Rightarrow> go_error + Todo" where
  "Unmarshal d v todo =
    (case v of
       JNull \<Rightarrow> Inr todo
     | JObject kvs \<Rightarrow>
         (case object d kvs (todo, None) of
            Inl e \<Rightarrow> Inl e
          | Inr (t, None) \<Rightarrow> Inr t
          | Inr (t, Some e) \<Rightarrow> Inl e)
     | _ \<Rightarrow> Inl (UnmarshalTypeError (kind v) ''Todo''))"

subsection \<open>gin: the request, the binding and the response\<close>

record Request =
  Header :: "string \<rightharpoonup> string list"
  Body :: string

definition Header_Get :: "(string \<rightharpoonup> string list) \<Rightarrow> string \<Rightarrow> string" where
  "Header_Get h key = (case h key of Some (v # vs) \<Rightarrow> v | _ \<Rightarrow> [])"

text \<open>
  \<open>ShouldBindJSON\<close> runs \<open>Decode\<close> once: the decoder reads one JSON value from the body
  and stores it; what follows that value in the body is never read. The errors of
  reading have fixed messages: \<open>io.EOF\<close> on a body with no value, \<open>io.ErrUnexpectedEOF\<close>
  on a value cut short, and the scanner's two syntax errors, of which the first names
  the offending character, in quotes, and where it stood.
\<close>

definition ShouldBindJSON :: "'c deps \<Rightarrow> string \<Rightarrow> go_error + Todo" where
  "ShouldBindJSON d b =
    (case json_scan d b of
       Inl e \<Rightarrow> Inl (ScanError e)
     | Inr (v, rest) \<Rightarrow> Unmarshal d v zero_Todo)"

fun scan_Error :: "scan_error \<Rightarrow> string" where
  "scan_Error EOF = ''EOF''"
| "scan_Error ErrUnexpectedEOF = ''unexpected EOF''"
| "scan_Error (SyntaxError_invalid_character q context) =
     ''invalid character '' @ q @ '' '' @ context"
| "scan_Error SyntaxError_exceeded_max_depth = ''exceeded max depth''"

definition Error_of :: "'c deps \<Rightarrow> go_error \<Rightarrow> string" where
  "Error_of d err = (case err of ScanError e \<Rightarrow> scan_Error e | _ \<Rightarrow> Error d err)"

datatype hval = HString string | HUint nat

type_synonym H = "(string \<times> hval) list"

record Response =
  status :: nat
  body :: "H option"

definition AbortWithStatus :: "nat \<Rightarrow> Response" where
  "AbortWithStatus code = \<lparr>status = code, body = None\<rparr>"

definition JSON :: "nat \<Rightarrow> H \<Rightarrow> Response" where
  "JSON code obj = \<lparr>status = code, body = Some obj\<rparr>"

definition StatusCreated :: nat where "StatusCreated = 201"
definition StatusBadRequest :: nat where "StatusBadRequest = 400"
definition StatusUnauthorized :: nat where "StatusUnauthorized = 401"
definition StatusInternalServerError :: nat where "StatusInternalServerError = 500"

subsection \<open>gorm over SQLite: the table and Create\<close>

text \<open>
  The table \<open>todos\<close> is the list of its rows, oldest first. \<open>broken\<close> holds the error
  every statement meets on a handle that cannot be used (a closed connection). Create
  stamps zero timestamps with the clock. A zero \<open>ID\<close> is left to SQLite, which assigns
  the key one above every row's; keys are signed 64-bit integers, so when a row holds
  the largest key, \<open>2 ^ 63 - 1\<close>, the insert fails with \<open>SQLITE_FULL\<close>. A non-zero \<open>ID\<close>
  is inserted as given and must be new, and the driver refuses an unsigned value with
  its top bit set. The handler never deletes a row.
\<close>

record DB =
  rows :: "Todo list"
  broken :: "go_error option"

definition Create :: "'c deps \<Rightarrow> DB \<Rightarrow> Todo \<Rightarrow> go_error + (DB \<times> Todo)" where
  "Create d db todo =
    (case broken db of
       Some e \<Rightarrow> Inl e
     | None \<Rightarrow>
         (let t = todo\<lparr>CreatedAt := (if CreatedAt todo = 0 then Now d else CreatedAt todo),
                        UpdatedAt := (if UpdatedAt todo = 0 then Now d else UpdatedAt todo)\<rparr>
          in if ID t = 0 then
               (let t' = t\<lparr>ID := Suc (fold max (map ID (rows db)) 0)\<rparr>
                in if 2 ^ 63 \<le> ID t' then Inl ErrFull
                   else Inr (db\<lparr>rows := rows db @ [t']\<rparr>, t'))
             else if 2 ^ 63 \<le> ID t then Inl (ConvertingArgument ''id'')
             else if ID t \<in> set (map ID (rows db)) then Inl (UniqueConstraintFailed ''todos.id'')
             else Inr (db\<lparr>rows := rows db @ [t]\<rparr>, t)))"

subsection \<open>NewTask\<close>

definition HasPrefix :: "string \<Rightarrow> string \<Rightarrow> bool" where
  "HasPrefix s p = (length p \<le> length s \<and> take (length p) s = p)"

definition TrimPrefix :: "string \<Rightarrow> string \<Rightarrow> string" where
  "TrimPrefix s p = (if HasPrefix s p then drop (length p) s else s)"

definition NewTask :: "'c deps \<Rightarrow> DB \<Rightarrow> Request \<Rightarrow> DB \<times> Response" where
  "NewTask d db c =
    (let s = Header_Get (Header c) ''Authorization'';
         tokenString = TrimPrefix s ''Bearer ''
     in case Protect d tokenString of
          Some err \<Rightarrow> (db, AbortWithStatus StatusUnauthorized)
        | None \<Rightarrow>
            (case ShouldBindJSON d (Body c) of
               Inl err \<Rightarrow> (db, JSON StatusBadRequest [(''error'', HString (Error_of d err))])
             | Inr todo \<Rightarrow>
                 (case Create d db todo of
                    Inl err \<Rightarrow>
                      (db, JSON StatusInternalServerError [(''error'', HString (Error_of d err))])
                  | Inr (db', todo') \<Rightarrow>
                      (db', JSON StatusCreated [(''ID'', HUint (ID todo'))]))))"

section \<open>The process entry point\<close>













section \<open>A concrete instance of the collaborators\<close>

text \<open>
  The library functions tabulated at the inputs the examples below use, with the values
  the real functions have there: the base64url segments of the headers
  \<open>{"alg":"HS256","typ":"JWT"}\<close> and \<open>{"alg":"RS256","typ":"JWT"}\<close> and of the claims
  \<open>{}\<close> and \<open>{"exp":1}\<close>, HMAC-SHA256 under the keys \<open>secret\<close> and
  \<open>==signature==\<close>, and the decoder on a few request bodies, among them one with a
  brace too many behind its value. Byte strings are written
  in hexadecimal, instants in seconds, and claims are kept as their JSON text. Outside
  the table the functions fail, with a message of no importance.
\<close>

definition demo_decode_header :: "string \<Rightarrow> string option option" where
  "demo_decode_header seg =
    (if seg = ''eyJhbGciOiJIUzI1NiIsInR5cCI6IkpXVCJ9'' then Some (Some ''HS256'')
     else if seg = ''eyJhbGciOiJSUzI1NiIsInR5cCI6IkpXVCJ9'' then Some (Some ''RS256'')
     else if seg = ''eyJ0eXAiOiJKV1QifQ'' then Some None
     else None)"

definition demo_decode_claims :: "string \<Rightarrow> string option" where
  \<open>demo_decode_claims seg =
    (if seg = ''e30'' then Some ''{}''
     else if seg = ''eyJleHAiOjF9'' then Some ''{"exp":1}''
     else None)\<close>

definition demo_Claims_Valid :: "string \<Rightarrow> ValidationError" where
  \<open>demo_Claims_Valid claims =
    (if claims = ''{"exp":1}'' then [ValidationErrorExpired] else [])\<close>

definition demo_hmac :: "string \<Rightarrow> string \<Rightarrow> string \<Rightarrow> string" where
  "demo_hmac alg key msg =
    (if alg = ''HS256'' \<and> key = ''secret'' \<and>
        msg = ''eyJhbGciOiJIUzI1NiIsInR5cCI6IkpXVCJ9.e30''
     then ''b7e2037127a6002b7cc7889330275af1885ede265a59bbd5e572924dbb809f43''
     else if alg = ''HS256'' \<and> key = ''==signature=='' \<and>
        msg = ''eyJhbGciOiJIUzI1NiIsInR5cCI6IkpXVCJ9.e30''
     then ''81258eb78367723b1fa5da4b454e16bc1d2080089be571848adeaef916f1b434''
     else if alg = ''HS256'' \<and> key = ''==signature=='' \<and>
        msg = ''eyJhbGciOiJIUzI1NiIsInR5cCI6IkpXVCJ9.eyJleHAiOjF9''
     then ''5074f2fd2cc5fb490fee831536f8bdb1373803aa5faf159cbf8e771abc197161''
     else [])"

definition demo_DecodeSegment :: "string \<Rightarrow> string option" where
  "demo_DecodeSegment seg =
    (if seg = ''t-IDcSemACt8x4iTMCda8Yhe3iZaWbvV5XKSTbuAn0M''
     then Some ''b7e2037127a6002b7cc7889330275af1885ede265a59bbd5e572924dbb809f43''
     else if seg = ''gSWOt4NncjsfpdpLRU4WvB0ggAib5XGEit6u-RbxtDQ''
     then Some ''81258eb78367723b1fa5da4b454e16bc1d2080089be571848adeaef916f1b434''
     else if seg = ''UHTy_SzF-0kP7oMVNvi9sTc4A6pfrxWcv453GrwZcWE''
     then Some ''5074f2fd2cc5fb490fee831536f8bdb1373803aa5faf159cbf8e771abc197161''
     else None)"

definition demo_json_scan :: "string \<Rightarrow> scan_error + json \<times> string" where
  \<open>demo_json_scan b =
    (if b = ''{"text":"buy milk"}''
     then Inr (JObject [(''text'', JString ''buy milk'')], [])
     else if b = ''{"text":""}'' then Inr (JObject [(''text'', JString [])], [])
     else if b = ''{"text":"x"}}'' then Inr (JObject [(''text'', JString ''x'')], ''}'')
     else if b = ''{}'' then Inr (JObject [], [])
     else if b = ''{"note":"x"}'' then Inr (JObject [(''note'', JString ''x'')], [])
     else if b = ''{"ID":7}'' then Inr (JObject [(''ID'', JNumber ''7'')], [])
     else if b = ''{"ID":"x"}'' then Inr (JObject [(''ID'', JString ''x'')], [])
     else if b = ''{"text": invalid json}''
     then Inl (SyntaxError_invalid_character [CHR 0x27, CHR ''i'', CHR 0x27]
            ''looking for beginning of value'')
     else Inl EOF)\<close>

definition demo_Error :: "go_error \<Rightarrow> string" where
  "demo_Error err =
    (case err of
       ScanError e \<Rightarrow> scan_Error e
     | UnmarshalTypeError v f \<Rightarrow>
         ''json: cannot unmarshal '' @ v @ '' into Go struct field '' @ f
     | UnmarshalerError msg \<Rightarrow> msg
     | DriverError msg \<Rightarrow> msg
     | UniqueConstraintFailed col \<Rightarrow> ''UNIQUE constraint failed: '' @ col
     | ConvertingArgument col \<Rightarrow>
         ''sql: converting argument type: uint64 values with high bit set are not supported''
     | ErrFull \<Rightarrow> ''database or disk is full'')"

definition demo_Time_UnmarshalJSON :: "json \<Rightarrow> time \<Rightarrow> string + time" where
  "demo_Time_UnmarshalJSON v cur =
    (case v of
       JNull \<Rightarrow> Inr cur
     | JString s \<Rightarrow>
         (if s = ''2026-01-01T00:00:00Z'' then Inr 63902822400
          else Inl ''cannot parse as a time'')
     | _ \<Rightarrow> Inl ''Time.UnmarshalJSON: input is not a JSON string'')"

definition demo :: "string deps" where
  "demo = \<lparr>decode_header = demo_decode_header, decode_claims = demo_decode_claims,
            DecodeSegment = demo_DecodeSegment, Claims_Valid = demo_Claims_Valid,
            hmac = demo_hmac, verify_asym = (\<lambda>alg s sig key. False),
            json_scan = demo_json_scan, Error = demo_Error,
            Time_UnmarshalJSON = demo_Time_UnmarshalJSON, Now = 63929088000\<rparr>"

definition bearer :: "string \<Rightarrow> Request \<Rightarrow> Request" where
  "bearer tok c = c\<lparr>Header := (Header c)(''Authorization'' \<mapsto> [''Bearer '' @ tok])\<rparr>"

definition token_SIGN :: string where
  "token_SIGN =
    ''eyJhbGciOiJIUzI1NiIsInR5cCI6IkpXVCJ9.e30.t-IDcSemACt8x4iTMCda8Yhe3iZaWbvV5XKSTbuAn0M''"

definition token_placeholder :: string where
  "token_placeholder =
    ''eyJhbGciOiJIUzI1NiIsInR5cCI6IkpXVCJ9.e30.gSWOt4NncjsfpdpLRU4WvB0ggAib5XGEit6u-RbxtDQ''"

definition token_expired :: string where
  "token_expired =
    ''eyJhbGciOiJIUzI1NiIsInR5cCI6IkpXVCJ9.eyJleHAiOjF9.UHTy_SzF-0kP7oMVNvi9sTc4A6pfrxWcv453GrwZcWE''"

definition token_RS256 :: string where
  "token_RS256 =
    ''eyJhbGciOiJSUzI1NiIsInR5cCI6IkpXVCJ9.e30.gSWOt4NncjsfpdpLRU4WvB0ggAib5XGEit6u-RbxtDQ''"

section \<open>Notions the statements use\<close>

text \<open>
  The token NewTask hands to the validator; a token signed with a given key under an
  HMAC method (its third segment decodes to the MAC of the first two under that key);
  a token whose claims pass the library's check; the algorithm a token declares; and a
  body that is a JSON text, which is one value with nothing but white space behind it.
\<close>

definition tokenString :: "Request \<Rightarrow> string" where
  "tokenString c = TrimPrefix (Header_Get (Header c) ''Authorization'') ''Bearer ''"

definition signed_with :: "'c deps \<Rightarrow> string \<Rightarrow> string \<Rightarrow> bool" where
  "signed_with d key s =
    (case ParseUnverified d s of
       Inl e \<Rightarrow> False
     | Inr (token, parts) \<Rightarrow>
         (case Method token of
            SigningMethodHMAC alg \<Rightarrow>
              Verify d (Method token) (parts ! 0 @ ''.'' @ parts ! 1) (parts ! 2) key
          | _ \<Rightarrow> False))"

definition claims_valid :: "'c deps \<Rightarrow> string \<Rightarrow> bool" where
  "claims_valid d s =
    (case ParseUnverified d s of
       Inl e \<Rightarrow> False
     | Inr (token, parts) \<Rightarrow> Claims_Valid d (Claims token) = [])"

definition declared_alg :: "'c deps \<Rightarrow> string \<Rightarrow> string option" where
  "declared_alg d s =
    (case Split s (CHR ''.'') of
       [p0, p1, p2] \<Rightarrow> (case decode_header d p0 of Some (Some alg) \<Rightarrow> Some alg | _ \<Rightarrow> None)
     | _ \<Rightarrow> None)"

definition isSpace :: "char \<Rightarrow> bool" where
  "isSpace c = (c \<in> set [CHR '' '', CHR 0x09, CHR 0x0A, CHR 0x0D])"

definition json_Valid :: "'c deps \<Rightarrow> string \<Rightarrow> bool" where
  "json_Valid d b =
    (case json_scan d b of Inl e \<Rightarrow> False | Inr (v, rest) \<Rightarrow> list_all isSpace rest)"

definition empty_DB :: DB where
  "empty_DB = \<lparr>rows = [], broken = None\<rparr>"

definition request :: "string \<Rightarrow> Request" where
  "request b = \<lparr>Header = Map.empty, Body = b\<rparr>"

definition authorization :: "string \<Rightarrow> Request \<Rightarrow> Request" where
  "authorization v c = c\<lparr>Header := (Header c)(''Authorization'' \<mapsto> [v])\<rparr>"

definition bad_body :: string where
  \<open>bad_body = ''{"text": invalid json}''\<close>

definition first_DB :: DB where
  "first_DB = \<lparr>rows = [\<lparr>ID = 1, CreatedAt = 63929088000, UpdatedAt = 63929088000,
                          DeletedAt = (0, False), Title = ''buy milk''\<rparr>], broken = None\<rparr>"

text \<open>
  A store whose connection is closed, a store whose only row holds the largest key, and
  a body with a brace too many.
\<close>

definition closed_DB :: DB where
  "closed_DB = \<lparr>rows = [], broken = Some (DriverError ''sql: database is closed'')\<rparr>"

definition full_DB :: DB where
  "full_DB = \<lparr>rows = [\<lparr>ID = 9223372036854775807, CreatedAt = 63929088000,
                         UpdatedAt = 63929088000, DeletedAt = (0, False), Title = []\<rparr>],
              broken = None\<rparr>"

definition trailing_body :: string where
  \<open>trailing_body = ''{"text":"x"}}''\<close>

section \<open>Auxiliary facts\<close>

lemma ParseUnverified_parts:
  "ParseUnverified d s = Inr (token, parts) \<Longrightarrow>
     \<exists>p0 p1 p2 alg. parts = [p0, p1, p2] \<and> Split s (CHR ''.'') = [p0, p1, p2] \<and>
        decode_header d p0 = Some (Some alg) \<and> GetSigningMethod alg = Some (Method token) \<and>
        decode_claims d p1 = Some (Claims token)"
  by (auto simp: ParseUnverified_def split: list.splits option.splits)

lemma Protect_empty: "Protect d [] = Some [ValidationErrorMalformed]"
  by (simp add: Protect_def jwt_Parse_def ParseUnverified_def)

lemma Protect_None_iff:
  "Protect d s = None \<longleftrightarrow> signed_with d ''==signature=='' s \<and> claims_valid d s"
  by (auto simp: Protect_def jwt_Parse_def keyFunc_def signed_with_def claims_valid_def Let_def
      split: sum.splits prod.splits SigningMethod.splits)

lemma GetSigningMethod_HMAC:
  "GetSigningMethod alg = Some (SigningMethodHMAC a) \<Longrightarrow>
     alg \<in> set [''HS256'', ''HS384'', ''HS512'']"
  by (auto simp: GetSigningMethod_def split: if_splits)

lemma NewTask_unauthorized:
  "Protect d (tokenString c) = Some err \<Longrightarrow>
     NewTask d db c = (db, \<lparr>status = 401, body = None\<rparr>)"
  by (simp add: NewTask_def tokenString_def AbortWithStatus_def StatusUnauthorized_def)

lemma tokenString_no_header: "Header c ''Authorization'' = None \<Longrightarrow> tokenString c = []"
  by (simp add: tokenString_def Header_Get_def TrimPrefix_def HasPrefix_def)

lemma NewTask_bad_request:
  "Protect d (tokenString c) = None \<Longrightarrow> ShouldBindJSON d (Body c) = Inl e \<Longrightarrow>
     NewTask d db c = (db, \<lparr>status = 400, body = Some [(''error'', HString (Error_of d e))]\<rparr>)"
  by (simp add: NewTask_def tokenString_def JSON_def StatusBadRequest_def)

lemma ShouldBindJSON_scan_error:
  "json_scan d b = Inl e \<Longrightarrow> ShouldBindJSON d b = Inl (ScanError e)"
  by (simp add: ShouldBindJSON_def)


lemma Error_of_scan: "Error_of d (ScanError e) = scan_Error e"
  by (simp add: Error_of_def)

lemma fold_max_ge: "(a::nat) \<le> fold max xs a"
  by (induction xs arbitrary: a) (auto intro: order_trans[OF max.cobounded2])

lemma fold_max_mem: "x \<in> set xs \<Longrightarrow> (x::nat) \<le> fold max xs a"
proof (induction xs arbitrary: a)
  case Nil
  then show ?case by simp
next
  case (Cons y ys)
  then show ?case
    using fold_max_ge[of "max y a" ys] by auto
qed

lemma TrimPrefix_append: "TrimPrefix (p @ t) p = t"
  by (simp add: TrimPrefix_def HasPrefix_def)

lemma TrimPrefix_absent: "\<forall>t. s \<noteq> p @ t \<Longrightarrow> TrimPrefix s p = s"
  by (auto simp: TrimPrefix_def HasPrefix_def) (metis append_take_drop_id)

lemma NewTask_status_401_iff:
  "status (snd (NewTask d db c)) = 401 \<longleftrightarrow> Protect d (tokenString c) \<noteq> None"
  by (auto simp: NewTask_def tokenString_def AbortWithStatus_def JSON_def StatusUnauthorized_def
      StatusBadRequest_def StatusInternalServerError_def StatusCreated_def
      split: option.splits sum.splits prod.splits)

lemma Protect_non_HMAC_aux:
  assumes "declared_alg d s = Some alg" and "alg \<notin> set [''HS256'', ''HS384'', ''HS512'']"
  shows "\<exists>err. Protect d s = Some err"
proof -
  from assms(1) obtain p0 p1 p2 where sp: "Split s (CHR ''.'') = [p0, p1, p2]"
    and hd: "decode_header d p0 = Some (Some alg)"
    by (auto simp: declared_alg_def split: list.splits option.splits)
  have "\<not> signed_with d ''==signature=='' s"
  proof
    assume sw: "signed_with d ''==signature=='' s"
    then obtain token parts where p: "ParseUnverified d s = Inr (token, parts)"
      unfolding signed_with_def by (cases "ParseUnverified d s") auto
    with sw obtain a where m: "Method token = SigningMethodHMAC a"
      unfolding signed_with_def by (cases "Method token") auto
    from ParseUnverified_parts[OF p] sp hd have "GetSigningMethod alg = Some (Method token)"
      by auto
    with m assms(2) show False using GetSigningMethod_HMAC by metis
  qed
  then have "Protect d s \<noteq> None" by (simp add: Protect_None_iff)
  then show ?thesis by blast
qed


lemma findField_exact:
  "findField ''text'' = Some FTitle" "findField ''ID'' = Some FID"
  "findField ''CreatedAt'' = Some FCreatedAt" "findField ''UpdatedAt'' = Some FUpdatedAt"
  "findField ''DeletedAt'' = Some FDeletedAt"
  by code_simp+








lemma fold_max_less: "fold max xs a < (n::nat) \<longleftrightarrow> a < n \<and> (\<forall>x \<in> set xs. x < n)"
  by (induction xs arbitrary: a) auto

lemma fresh_ID: "r \<in> set rs \<Longrightarrow> ID r < Suc (fold max (map ID rs) 0)"
  using fold_max_mem[of "ID r" "map ID rs" 0] by auto

lemma next_ID_bound:
  "Suc (fold max (map ID rs) 0) < 2 ^ 63 \<longleftrightarrow> (\<forall>r \<in> set rs. ID r < 2 ^ 63 - 1)"
proof -
  have "Suc (fold max (map ID rs) 0) < 2 ^ 63 \<longleftrightarrow> fold max (map ID rs) 0 < 2 ^ 63 - 1"
    by auto
  then show ?thesis by (simp add: fold_max_less)
qed

lemma Create_new:
  assumes "broken db = None" and "\<forall>r \<in> set (rows db). ID r < 2 ^ 63 - 1"
  shows "\<exists>i. Create d db (zero_Todo\<lparr>Title := S\<rparr>) =
      Inr (db\<lparr>rows := rows db @ [\<lparr>ID = i, CreatedAt = Now d, UpdatedAt = Now d,
                                    DeletedAt = (0, False), Title = S\<rparr>]\<rparr>,
           \<lparr>ID = i, CreatedAt = Now d, UpdatedAt = Now d, DeletedAt = (0, False), Title = S\<rparr>) \<and>
      (\<forall>r \<in> set (rows db). ID r < i) \<and> i < 2 ^ 63"
proof -
  let ?i = "Suc (fold max (map ID (rows db)) 0)"
  from assms(2) have b: "?i < 2 ^ 63" unfolding next_ID_bound .
  then have "\<not> 2 ^ 63 \<le> ?i" by simp
  with assms(1) have "Create d db (zero_Todo\<lparr>Title := S\<rparr>) =
      Inr (db\<lparr>rows := rows db @ [\<lparr>ID = ?i, CreatedAt = Now d, UpdatedAt = Now d,
                                    DeletedAt = (0, False), Title = S\<rparr>]\<rparr>,
           \<lparr>ID = ?i, CreatedAt = Now d, UpdatedAt = Now d, DeletedAt = (0, False), Title = S\<rparr>)"
    by (simp add: Create_def Let_def zero_Todo_def)
  moreover have "\<forall>r \<in> set (rows db). ID r < ?i" using fresh_ID by blast
  ultimately show ?thesis using b by blast
qed

lemma Create_fails:
  assumes "broken db \<noteq> None \<or> (\<exists>r \<in> set (rows db). 2 ^ 63 - 1 \<le> ID r)"
  shows "\<exists>e. Create d db (zero_Todo\<lparr>Title := S\<rparr>) = Inl e"
proof (cases "broken db")
  case (Some e)
  then show ?thesis by (simp add: Create_def)
next
  case None
  with assms obtain r where r: "r \<in> set (rows db)" "2 ^ 63 - 1 \<le> ID r" by auto
  from r(2) have "\<not> ID r < 2 ^ 63 - 1" by (simp only: not_less)
  with r(1) have "\<not> (\<forall>r \<in> set (rows db). ID r < 2 ^ 63 - 1)" by blast
  then have "\<not> Suc (fold max (map ID (rows db)) 0) < 2 ^ 63" unfolding next_ID_bound .
  then have "2 ^ 63 \<le> Suc (fold max (map ID (rows db)) 0)" by simp
  with None show ?thesis by (simp add: Create_def Let_def zero_Todo_def)
qed

lemma NewTask_created_aux:
  assumes "Protect d (tokenString c) = None"
      and "ShouldBindJSON d (Body c) = Inr (zero_Todo\<lparr>Title := S\<rparr>)"
      and "broken db = None" and "\<forall>r \<in> set (rows db). ID r < 2 ^ 63 - 1"
  shows "\<exists>i. NewTask d db c =
           (db\<lparr>rows := rows db @ [\<lparr>ID = i, CreatedAt = Now d, UpdatedAt = Now d,
                                    DeletedAt = (0, False), Title = S\<rparr>]\<rparr>,
            \<lparr>status = 201, body = Some [(''ID'', HUint i)]\<rparr>) \<and>
           (\<forall>r \<in> set (rows db). ID r < i) \<and> i < 2 ^ 63"
proof -
  from Create_new[OF assms(3,4), of d S] obtain i where
    c: "Create d db (zero_Todo\<lparr>Title := S\<rparr>) =
      Inr (db\<lparr>rows := rows db @ [\<lparr>ID = i, CreatedAt = Now d, UpdatedAt = Now d,
                                    DeletedAt = (0, False), Title = S\<rparr>]\<rparr>,
           \<lparr>ID = i, CreatedAt = Now d, UpdatedAt = Now d, DeletedAt = (0, False), Title = S\<rparr>)"
    and f: "\<forall>r \<in> set (rows db). ID r < i" "i < 2 ^ 63" by blast
  from assms(1,2) c have "NewTask d db c =
           (db\<lparr>rows := rows db @ [\<lparr>ID = i, CreatedAt = Now d, UpdatedAt = Now d,
                                    DeletedAt = (0, False), Title = S\<rparr>]\<rparr>,
            \<lparr>status = 201, body = Some [(''ID'', HUint i)]\<rparr>)"
    by (simp add: NewTask_def tokenString_def JSON_def StatusCreated_def)
  with f show ?thesis by blast
qed

lemma NewTask_write_fails_aux:
  assumes "Protect d (tokenString c) = None"
      and "ShouldBindJSON d (Body c) = Inr (zero_Todo\<lparr>Title := S\<rparr>)"
      and "broken db \<noteq> None \<or> (\<exists>r \<in> set (rows db). 2 ^ 63 - 1 \<le> ID r)"
  shows "\<exists>e. NewTask d db c =
           (db, \<lparr>status = 500, body = Some [(''error'', HString (Error_of d e))]\<rparr>)"
proof -
  from Create_fails[OF assms(3), of d S] obtain e where
    "Create d db (zero_Todo\<lparr>Title := S\<rparr>) = Inl e" by blast
  with assms(1,2) have "NewTask d db c =
           (db, \<lparr>status = 500, body = Some [(''error'', HString (Error_of d e))]\<rparr>)"
    by (simp add: NewTask_def tokenString_def JSON_def StatusInternalServerError_def)
  then show ?thesis by blast
qed

lemma bind_text:
  "json_scan d b = Inr (JObject [(''text'', JString S)], rest) \<Longrightarrow>
     ShouldBindJSON d b = Inr (zero_Todo\<lparr>Title := S\<rparr>)"
  by (simp add: ShouldBindJSON_def Unmarshal_def findField_exact)



lemma NewTask_store:
  "fst (NewTask d db c) \<noteq> db \<Longrightarrow>
     Protect d (tokenString c) = None \<and> (\<exists>todo. ShouldBindJSON d (Body c) = Inr todo) \<and>
     status (snd (NewTask d db c)) = 201"
  by (auto simp: NewTask_def tokenString_def AbortWithStatus_def JSON_def StatusCreated_def
      split: option.splits sum.splits prod.splits)

lemma NewTask_header:
  "Header c ''Authorization'' = Some (v # vs) \<Longrightarrow> tokenString c = TrimPrefix v ''Bearer ''"
  by (simp add: tokenString_def Header_Get_def)






subsection \<open>The concrete instance evaluated\<close>

lemmas demo_defs = demo_def demo_decode_header_def demo_decode_claims_def demo_DecodeSegment_def
  demo_Claims_Valid_def demo_hmac_def demo_json_scan_def demo_Error_def
  demo_Time_UnmarshalJSON_def

lemma tokenString_bearer: "tokenString (bearer tok (request b)) = tok"
  by (simp add: tokenString_def bearer_def request_def Header_Get_def TrimPrefix_def HasPrefix_def)

lemma Body_bearer: "Body (bearer tok (request b)) = b"
  by (simp add: bearer_def request_def)

lemma demo_Protect:
  "Protect demo token_SIGN = Some [ValidationErrorSignatureInvalid]"
  "Protect demo token_placeholder = None"
  "Protect demo token_expired = Some [ValidationErrorExpired]"
  "Protect demo token_RS256 = Some [ValidationErrorUnverifiable]"
  by (simp_all add: Protect_def jwt_Parse_def keyFunc_def Verify_def ParseUnverified_def
      GetSigningMethod_def token_SIGN_def token_placeholder_def token_expired_def
      token_RS256_def demo_defs)

lemma demo_signed:
  "signed_with demo ''secret'' token_SIGN"
  "\<not> signed_with demo ''secret'' token_placeholder"
  "signed_with demo ''==signature=='' token_expired"
  "claims_valid demo token_SIGN"
  by (simp_all add: signed_with_def claims_valid_def Verify_def ParseUnverified_def
      GetSigningMethod_def token_SIGN_def token_placeholder_def token_expired_def demo_defs)

lemma demo_declared: "declared_alg demo token_RS256 = Some ''RS256''"
  by (simp add: declared_alg_def token_RS256_def demo_defs)

lemma tokenString_authorization:
  "tokenString (authorization v (request b)) = TrimPrefix v ''Bearer ''"
  by (simp add: tokenString_def authorization_def request_def Header_Get_def)

lemma Body_authorization: "Body (authorization v (request b)) = b"
  by (simp add: authorization_def request_def)

lemma demo_TrimPrefix:
  "TrimPrefix token_placeholder ''Bearer '' = token_placeholder"
  "TrimPrefix (''bearer '' @ token_placeholder) ''Bearer '' = ''bearer '' @ token_placeholder"
  "TrimPrefix (''Bearer '' @ token_placeholder) ''Bearer '' = token_placeholder"
  by (simp_all add: TrimPrefix_def HasPrefix_def token_placeholder_def)

lemma demo_Protect_lower:
  "Protect demo (''bearer '' @ token_placeholder) = Some [ValidationErrorMalformed]"
  by (simp add: Protect_def jwt_Parse_def ParseUnverified_def token_placeholder_def demo_defs)

lemma demo_scan:
  \<open>json_scan demo bad_body =
     Inl (SyntaxError_invalid_character [CHR 0x27, CHR ''i'', CHR 0x27]
       ''looking for beginning of value'')\<close>
  \<open>json_scan demo ''{"text":"buy milk"}'' =
     Inr (JObject [(''text'', JString ''buy milk'')], [])\<close>
  \<open>json_scan demo ''{"text":""}'' = Inr (JObject [(''text'', JString [])], [])\<close>
  \<open>json_scan demo ''{}'' = Inr (JObject [], [])\<close>
  \<open>json_scan demo ''{"note":"x"}'' = Inr (JObject [(''note'', JString ''x'')], [])\<close>
  \<open>json_scan demo ''{"ID":7}'' = Inr (JObject [(''ID'', JNumber ''7'')], [])\<close>
  \<open>json_scan demo ''{"ID":"x"}'' = Inr (JObject [(''ID'', JString ''x'')], [])\<close>
  \<open>json_scan demo trailing_body = Inr (JObject [(''text'', JString ''x'')], ''}'')\<close>
  by (simp_all add: demo_defs bad_body_def trailing_body_def)

lemma demo_bad_message:
  \<open>scan_Error (SyntaxError_invalid_character [CHR 0x27, CHR ''i'', CHR 0x27]
      ''looking for beginning of value'') =
    ''invalid character 'i' looking for beginning of value''\<close>
  by simp

lemma demo_bind:
  \<open>ShouldBindJSON demo ''{"ID":7}'' = Inr (zero_Todo\<lparr>ID := 7\<rparr>)\<close>
  \<open>ShouldBindJSON demo ''{"ID":"x"}'' = Inl (UnmarshalTypeError ''string'' ''Todo.ID'')\<close>
  \<open>ShouldBindJSON demo ''{}'' = Inr zero_Todo\<close>
  by (simp_all add: ShouldBindJSON_def Unmarshal_def demo_scan findField_exact ParseUint_def
      isDigit_def saveError_def)

lemma demo_Now: "Now demo = 63929088000"
  by (simp add: demo_def)

lemma demo_Error_closed: "Error_of demo (DriverError msg) = msg"
  by (simp add: Error_of_def demo_def demo_Error_def)

lemma demo_Error_full: "Error_of demo ErrFull = ''database or disk is full''"
  by (simp add: Error_of_def demo_def demo_Error_def)

lemma demo_NewTask:
  \<open>NewTask demo empty_DB (bearer token_placeholder (request ''{"ID":7}'')) =
     (\<lparr>rows = [\<lparr>ID = 7, CreatedAt = 63929088000, UpdatedAt = 63929088000,
                 DeletedAt = (0, False), Title = []\<rparr>], broken = None\<rparr>,
      \<lparr>status = 201, body = Some [(''ID'', HUint 7)]\<rparr>)\<close>
  \<open>status (snd (NewTask demo empty_DB (bearer token_placeholder (request ''{"ID":"x"}'')))) = 400\<close>
  \<open>NewTask demo first_DB (bearer token_placeholder (request ''{"text":"buy milk"}'')) =
     (\<lparr>rows = [\<lparr>ID = 1, CreatedAt = 63929088000, UpdatedAt = 63929088000,
                 DeletedAt = (0, False), Title = ''buy milk''\<rparr>,
               \<lparr>ID = 2, CreatedAt = 63929088000, UpdatedAt = 63929088000,
                 DeletedAt = (0, False), Title = ''buy milk''\<rparr>], broken = None\<rparr>,
      \<lparr>status = 201, body = Some [(''ID'', HUint 2)]\<rparr>)\<close>
  by (simp_all add: NewTask_def tokenString_bearer[unfolded tokenString_def] Body_bearer
      demo_Protect demo_bind bind_text[OF demo_scan(2)] Create_def empty_DB_def first_DB_def
      zero_Todo_def JSON_def StatusCreated_def StatusBadRequest_def Let_def demo_Now)


lemma NewTask_ok:
  "Protect d (tokenString c) = None \<Longrightarrow> ShouldBindJSON d (Body c) = Inr todo \<Longrightarrow>
     NewTask d db c =
       (case Create d db todo of
          Inl err \<Rightarrow> (db, \<lparr>status = 500, body = Some [(''error'', HString (Error_of d err))]\<rparr>)
        | Inr (db', todo') \<Rightarrow> (db', \<lparr>status = 201, body = Some [(''ID'', HUint (ID todo'))]\<rparr>))"
  by (simp add: NewTask_def tokenString_def JSON_def StatusInternalServerError_def
      StatusCreated_def split: sum.splits)

lemma demo_tokenString:
  "tokenString (authorization (''Bearer '' @ token_placeholder) (request b)) = token_placeholder"
  "tokenString (authorization token_placeholder (request b)) = token_placeholder"
  "tokenString (authorization (''bearer '' @ token_placeholder) (request b)) =
     ''bearer '' @ token_placeholder"
  by (simp_all only: tokenString_authorization demo_TrimPrefix)

lemma demo_Create:
  "Create demo closed_DB todo = Inl (DriverError ''sql: database is closed'')"
  "Create demo full_DB (zero_Todo\<lparr>Title := S\<rparr>) = Inl ErrFull"
  "Create demo empty_DB (zero_Todo\<lparr>Title := S\<rparr>) =
     Inr (\<lparr>rows = [\<lparr>ID = 1, CreatedAt = 63929088000, UpdatedAt = 63929088000,
                      DeletedAt = (0, False), Title = S\<rparr>], broken = None\<rparr>,
          \<lparr>ID = 1, CreatedAt = 63929088000, UpdatedAt = 63929088000,
            DeletedAt = (0, False), Title = S\<rparr>)"
  by (simp_all add: Create_def closed_DB_def full_DB_def empty_DB_def zero_Todo_def Let_def
      demo_Now)

lemma demo_NewTask_closed:
  \<open>NewTask demo closed_DB (bearer token_placeholder (request ''{"text":"buy milk"}'')) =
     (closed_DB, \<lparr>status = 500, body = Some [(''error'', HString ''sql: database is closed'')]\<rparr>)\<close>
  \<open>NewTask demo closed_DB (bearer token_placeholder (request ''{}'')) =
     (closed_DB, \<lparr>status = 500, body = Some [(''error'', HString ''sql: database is closed'')]\<rparr>)\<close>
  using
    NewTask_ok[of demo \<open>bearer token_placeholder (request ''{"text":"buy milk"}'')\<close>
      "zero_Todo\<lparr>Title := ''buy milk''\<rparr>" closed_DB]
    NewTask_ok[of demo \<open>bearer token_placeholder (request ''{}'')\<close> zero_Todo closed_DB]
  by (simp_all add: tokenString_bearer Body_bearer demo_Protect demo_bind
      bind_text[OF demo_scan(2)] demo_Create demo_Error_closed)

lemma demo_NewTask_full:
  \<open>NewTask demo full_DB (bearer token_placeholder (request ''{"text":"buy milk"}'')) =
     (full_DB, \<lparr>status = 500, body = Some [(''error'', HString ''database or disk is full'')]\<rparr>)\<close>
  using
    NewTask_ok[of demo \<open>bearer token_placeholder (request ''{"text":"buy milk"}'')\<close>
      "zero_Todo\<lparr>Title := ''buy milk''\<rparr>" full_DB]
  by (simp add: tokenString_bearer Body_bearer demo_Protect bind_text[OF demo_scan(2)]
      demo_Create demo_Error_full)

lemma demo_NewTask_header:
  \<open>NewTask demo empty_DB
      (authorization (''Bearer '' @ token_placeholder) (request ''{"text":"buy milk"}'')) =
     (\<lparr>rows = [\<lparr>ID = 1, CreatedAt = 63929088000, UpdatedAt = 63929088000,
                 DeletedAt = (0, False), Title = ''buy milk''\<rparr>], broken = None\<rparr>,
      \<lparr>status = 201, body = Some [(''ID'', HUint 1)]\<rparr>)\<close>
  \<open>NewTask demo empty_DB (authorization token_placeholder (request ''{"text":"buy milk"}'')) =
     (\<lparr>rows = [\<lparr>ID = 1, CreatedAt = 63929088000, UpdatedAt = 63929088000,
                 DeletedAt = (0, False), Title = ''buy milk''\<rparr>], broken = None\<rparr>,
      \<lparr>status = 201, body = Some [(''ID'', HUint 1)]\<rparr>)\<close>
  \<open>NewTask demo empty_DB
      (authorization (''bearer '' @ token_placeholder) (request ''{"text":"buy milk"}'')) =
     (empty_DB, \<lparr>status = 401, body = None\<rparr>)\<close>
proof -
  have b: \<open>ShouldBindJSON demo ''{"text":"buy milk"}'' = Inr (zero_Todo\<lparr>Title := ''buy milk''\<rparr>)\<close>
    by (rule bind_text[OF demo_scan(2)])
  show \<open>NewTask demo empty_DB
      (authorization (''Bearer '' @ token_placeholder) (request ''{"text":"buy milk"}'')) =
     (\<lparr>rows = [\<lparr>ID = 1, CreatedAt = 63929088000, UpdatedAt = 63929088000,
                 DeletedAt = (0, False), Title = ''buy milk''\<rparr>], broken = None\<rparr>,
      \<lparr>status = 201, body = Some [(''ID'', HUint 1)]\<rparr>)\<close>
    by (subst NewTask_ok[where todo = "zero_Todo\<lparr>Title := ''buy milk''\<rparr>"])
      (simp_all only: demo_tokenString Body_authorization demo_Protect b demo_Create
        sum.case prod.case Model.simps Todo.simps)
  show \<open>NewTask demo empty_DB (authorization token_placeholder (request ''{"text":"buy milk"}'')) =
     (\<lparr>rows = [\<lparr>ID = 1, CreatedAt = 63929088000, UpdatedAt = 63929088000,
                 DeletedAt = (0, False), Title = ''buy milk''\<rparr>], broken = None\<rparr>,
      \<lparr>status = 201, body = Some [(''ID'', HUint 1)]\<rparr>)\<close>
    by (subst NewTask_ok[where todo = "zero_Todo\<lparr>Title := ''buy milk''\<rparr>"])
      (simp_all only: demo_tokenString Body_authorization demo_Protect b demo_Create
        sum.case prod.case Model.simps Todo.simps)
  show \<open>NewTask demo empty_DB
      (authorization (''bearer '' @ token_placeholder) (request ''{"text":"buy milk"}'')) =
     (empty_DB, \<lparr>status = 401, body = None\<rparr>)\<close>
    by (rule NewTask_unauthorized) (simp only: demo_tokenString demo_Protect_lower)
qed

lemma demo_NewTask_errors:
  "NewTask demo db (bearer token_SIGN (request b)) = (db, \<lparr>status = 401, body = None\<rparr>)"
  \<open>NewTask demo db (bearer token_placeholder (request bad_body)) =
     (db, \<lparr>status = 400, body = Some [(''error'',
        HString ''invalid character 'i' looking for beginning of value'')]\<rparr>)\<close>
  using NewTask_unauthorized[of demo "bearer token_SIGN (request b)" _ db]
    NewTask_bad_request[of demo "bearer token_placeholder (request bad_body)" _ db]
  by (simp_all add: tokenString_bearer Body_bearer demo_Protect ShouldBindJSON_scan_error
      demo_scan Error_of_scan)

lemma demo_store_changed:
  \<open>fst (NewTask demo first_DB (bearer token_placeholder (request ''{"text":"buy milk"}'')))
     \<noteq> first_DB\<close>
  unfolding demo_NewTask by (simp add: first_DB_def)


section \<open>The token validator\<close>

text \<open>
  C1 (the code departs from it). The claim: a token signed with the configured secret
  SIGN under an HMAC method passes \<open>Protect\<close>, and a token signed with another secret
  fails. \<open>Protect\<close> never sees SIGN: its key function returns the literal
  \<open>==signature==\<close>. With SIGN = \<open>secret\<close>, the HS256 token over the claims \<open>{}\<close> that
  is signed with SIGN is rejected for its signature, and the same token signed with the
  literal, a secret other than SIGN, is accepted.
\<close>

theorem Protect_ignores_SIGN:
  "signed_with demo ''secret'' token_SIGN \<and> claims_valid demo token_SIGN \<and>
   Protect demo token_SIGN = Some [ValidationErrorSignatureInvalid] \<and>
   \<not> signed_with demo ''secret'' token_placeholder \<and>
   Protect demo token_placeholder = None"
  by (simp add: demo_signed demo_Protect)

text \<open>
  C2, as stated, fails: validation does not succeed exactly when the HMAC signature is
  valid under the placeholder key. The token over the claims \<open>{"exp":1}\<close> carries a
  valid HS256 signature under \<open>==signature==\<close> and is rejected as expired, because
  \<open>jwt.Parse\<close> also runs the claims' own check.
\<close>

theorem Protect_expired_counterexample:
  "signed_with demo ''==signature=='' token_expired \<and>
   Protect demo token_expired = Some [ValidationErrorExpired]"
  by (simp add: demo_signed demo_Protect)

text \<open>
  C2, amended: for every token string, \<open>Protect\<close> succeeds exactly when the token
  parses, declares a registered HMAC method, carries a signature that is valid under
  the literal key \<open>==signature==\<close>, and has claims that pass the library's check. No
  configured secret enters.
\<close>

theorem Protect_placeholder_key:
  "Protect d s = None \<longleftrightarrow> signed_with d ''==signature=='' s \<and> claims_valid d s"
  by (rule Protect_None_iff)

text \<open>
  C4. A token whose header declares an algorithm outside the HMAC family (anything but
  HS256, HS384 and HS512) is rejected with an error, whatever its claims and signature.
  The key function is an allow-list: it hands out a key exactly when the token's method
  is of the HMAC type, and returns an error for every other method.
\<close>

theorem Protect_rejects_non_HMAC:
  "(declared_alg d s = Some alg \<and> alg \<notin> set [''HS256'', ''HS384'', ''HS512'']
      \<longrightarrow> (\<exists>err. Protect d s = Some err)) \<and>
   ((\<exists>key. keyFunc token = Inr key) \<longleftrightarrow> (\<exists>a. Method token = SigningMethodHMAC a))"
proof (intro conjI impI)
  assume "declared_alg d s = Some alg \<and> alg \<notin> set [''HS256'', ''HS384'', ''HS512'']"
  then show "\<exists>err. Protect d s = Some err"
    using Protect_non_HMAC_aux by blast
next
  show "(\<exists>key. keyFunc token = Inr key) \<longleftrightarrow> (\<exists>a. Method token = SigningMethodHMAC a)"
    by (auto simp: keyFunc_def split: SigningMethod.splits)
qed

text \<open>
  C4 at a concrete token: one that declares RS256 is rejected as unverifiable.
\<close>

theorem Protect_rejects_non_HMAC_witness:
  "declared_alg demo token_RS256 = Some ''RS256'' \<and>
   ''RS256'' \<notin> set [''HS256'', ''HS384'', ''HS512''] \<and>
   (\<exists>err. Protect demo token_RS256 = Some err) \<and>
   Protect demo token_RS256 = Some [ValidationErrorUnverifiable]"
  using Protect_rejects_non_HMAC[of demo token_RS256 "''RS256''"]
  by (simp add: demo_declared demo_Protect)

section \<open>The handler NewTask\<close>

text \<open>
  C7. NewTask takes the first value of the request's \<open>Authorization\<close> header and strips
  the literal prefix \<open>Bearer \<close> from it: when the value is \<open>Bearer \<close> followed by \<open>t\<close>,
  it is \<open>t\<close> that reaches the validator; when the value does not start with the prefix,
  letter case included, the value itself reaches the validator, unchanged. The
  extraction never rejects: in both cases the response is 401 exactly when \<open>Protect\<close>
  rejects the string passed on.
\<close>

theorem NewTask_token_extraction:
  "(Header c ''Authorization'' = Some ((''Bearer '' @ t) # vs) \<longrightarrow>
      (status (snd (NewTask d db c)) = 401 \<longleftrightarrow> Protect d t \<noteq> None)) \<and>
   (Header c ''Authorization'' = Some (s # vs) \<and> (\<forall>t'. s \<noteq> ''Bearer '' @ t') \<longrightarrow>
      (status (snd (NewTask d db c)) = 401 \<longleftrightarrow> Protect d s \<noteq> None)) \<and>
   TrimPrefix (''Bearer '' @ t) ''Bearer '' = t \<and>
   ((\<forall>t'. s \<noteq> ''Bearer '' @ t') \<longrightarrow> TrimPrefix s ''Bearer '' = s)"
proof -
  have a: "status (snd (NewTask d db c)) = 401 \<longleftrightarrow> Protect d t \<noteq> None"
    if "Header c ''Authorization'' = Some ((''Bearer '' @ t) # vs)"
  proof -
    from that have "tokenString c = TrimPrefix (''Bearer '' @ t) ''Bearer ''"
      by (rule NewTask_header)
    then have "tokenString c = t" by (simp only: TrimPrefix_append)
    then show ?thesis by (simp only: NewTask_status_401_iff)
  qed
  have b: "status (snd (NewTask d db c)) = 401 \<longleftrightarrow> Protect d s \<noteq> None"
    if "Header c ''Authorization'' = Some (s # vs)" and "\<forall>t'. s \<noteq> ''Bearer '' @ t'"
  proof -
    from that(1) have "tokenString c = TrimPrefix s ''Bearer ''" by (rule NewTask_header)
    with TrimPrefix_absent[OF that(2)] have "tokenString c = s" by simp
    then show ?thesis by (simp only: NewTask_status_401_iff)
  qed
  have c: "TrimPrefix (''Bearer '' @ t) ''Bearer '' = t" by (rule TrimPrefix_append)
  have d: "(\<forall>t'. s \<noteq> ''Bearer '' @ t') \<longrightarrow> TrimPrefix s ''Bearer '' = s"
    using TrimPrefix_absent by blast
  from a b c d show ?thesis by blast
qed

text \<open>
  C7 at concrete requests on the empty store, all with the body \<open>{"text":"buy milk"}\<close>
  and the token signed with the placeholder: sent as \<open>Bearer \<close> and the token, and
  sent bare, it is accepted (201); sent as \<open>bearer \<close>, in lower case, and the token,
  the whole value reaches the validator and is rejected (401).
\<close>

theorem NewTask_token_extraction_witness:
  \<open>Header (authorization (''Bearer '' @ token_placeholder) (request ''{"text":"buy milk"}''))
     ''Authorization'' = Some ((''Bearer '' @ token_placeholder) # []) \<and>
   Protect demo token_placeholder = None \<and>
   status (snd (NewTask demo empty_DB
     (authorization (''Bearer '' @ token_placeholder) (request ''{"text":"buy milk"}'')))) = 201 \<and>
   Header (authorization token_placeholder (request ''{"text":"buy milk"}''))
     ''Authorization'' = Some (token_placeholder # []) \<and>
   (\<forall>t'. token_placeholder \<noteq> ''Bearer '' @ t') \<and>
   status (snd (NewTask demo empty_DB
     (authorization token_placeholder (request ''{"text":"buy milk"}'')))) = 201 \<and>
   Header (authorization (''bearer '' @ token_placeholder) (request ''{"text":"buy milk"}''))
     ''Authorization'' = Some ((''bearer '' @ token_placeholder) # []) \<and>
   (\<forall>t'. ''bearer '' @ token_placeholder \<noteq> ''Bearer '' @ t') \<and>
   Protect demo (''bearer '' @ token_placeholder) = Some [ValidationErrorMalformed] \<and>
   status (snd (NewTask demo empty_DB
     (authorization (''bearer '' @ token_placeholder) (request ''{"text":"buy milk"}'')))) = 401\<close>
proof -
  have h: "Header (authorization v (request b)) ''Authorization'' = Some (v # [])" for v b
    by (simp add: authorization_def request_def)
  have n1: "\<forall>t'. token_placeholder \<noteq> ''Bearer '' @ t'"
    by (simp add: token_placeholder_def)
  have n2: "\<forall>t'. ''bearer '' @ token_placeholder \<noteq> ''Bearer '' @ t'"
    by simp
  have r: \<open>status (snd (NewTask demo empty_DB
      (authorization (''bearer '' @ token_placeholder) (request ''{"text":"buy milk"}'')))) = 401
    \<longleftrightarrow> Protect demo (''bearer '' @ token_placeholder) \<noteq> None\<close>
    using NewTask_token_extraction[where
        c = \<open>authorization (''bearer '' @ token_placeholder) (request ''{"text":"buy milk"}'')\<close>
        and s = "''bearer '' @ token_placeholder" and vs = "[]" and d = demo and db = empty_DB]
      h[of "''bearer '' @ token_placeholder" \<open>''{"text":"buy milk"}''\<close>] n2
    by simp
  have r1: \<open>status (snd (NewTask demo empty_DB
      (authorization (''Bearer '' @ token_placeholder) (request ''{"text":"buy milk"}'')))) = 401
    \<longleftrightarrow> Protect demo token_placeholder \<noteq> None\<close>
    using NewTask_token_extraction[where
        c = \<open>authorization (''Bearer '' @ token_placeholder) (request ''{"text":"buy milk"}'')\<close>
        and t = token_placeholder and vs = "[]" and d = demo and db = empty_DB]
      h[of "''Bearer '' @ token_placeholder" \<open>''{"text":"buy milk"}''\<close>]
    by simp
  have r2: \<open>status (snd (NewTask demo empty_DB
      (authorization token_placeholder (request ''{"text":"buy milk"}'')))) = 401
    \<longleftrightarrow> Protect demo token_placeholder \<noteq> None\<close>
    using NewTask_token_extraction[where
        c = \<open>authorization token_placeholder (request ''{"text":"buy milk"}'')\<close>
        and s = token_placeholder and vs = "[]" and d = demo and db = empty_DB]
      h[of token_placeholder \<open>''{"text":"buy milk"}''\<close>] n1
    by simp
  show ?thesis
    using r r1 r2 h n1 n2
    unfolding demo_NewTask_header demo_Protect demo_Protect_lower
    by simp
qed

text \<open>
  C5. Whenever token validation fails, whatever the error, NewTask answers 401 with no
  body and leaves the store as it was; the error does not show in the response. A
  request without an \<open>Authorization\<close> header is such a request.
\<close>

theorem NewTask_unauthorized_uniform:
  "(Protect d (tokenString c) = Some err \<longrightarrow>
      NewTask d db c = (db, \<lparr>status = 401, body = None\<rparr>)) \<and>
   (Header c ''Authorization'' = None \<longrightarrow>
      NewTask d db c = (db, \<lparr>status = 401, body = None\<rparr>))"
proof (intro conjI impI)
  assume "Protect d (tokenString c) = Some err"
  then show "NewTask d db c = (db, \<lparr>status = 401, body = None\<rparr>)"
    by (rule NewTask_unauthorized)
next
  assume "Header c ''Authorization'' = None"
  then have "Protect d (tokenString c) = Some [ValidationErrorMalformed]"
    by (simp add: tokenString_no_header Protect_empty)
  then show "NewTask d db c = (db, \<lparr>status = 401, body = None\<rparr>)"
    by (rule NewTask_unauthorized)
qed

text \<open>
  C5 at concrete requests: an algorithm mismatch (RS256), a signature mismatch (the
  token signed with \<open>secret\<close>) and a missing header give the same response.
\<close>

theorem NewTask_unauthorized_uniform_witness:
  \<open>Protect demo (tokenString (bearer token_RS256 (request ''{"text":"buy milk"}''))) =
     Some [ValidationErrorUnverifiable] \<and>
   NewTask demo first_DB (bearer token_RS256 (request ''{"text":"buy milk"}'')) =
     (first_DB, \<lparr>status = 401, body = None\<rparr>) \<and>
   Protect demo (tokenString (bearer token_SIGN (request ''{"text":"buy milk"}''))) =
     Some [ValidationErrorSignatureInvalid] \<and>
   NewTask demo first_DB (bearer token_SIGN (request ''{"text":"buy milk"}'')) =
     (first_DB, \<lparr>status = 401, body = None\<rparr>) \<and>
   Header (request ''{"text":"buy milk"}'') ''Authorization'' = None \<and>
   NewTask demo first_DB (request ''{"text":"buy milk"}'') =
     (first_DB, \<lparr>status = 401, body = None\<rparr>)\<close>
  using
    NewTask_unauthorized_uniform[of demo \<open>bearer token_RS256 (request ''{"text":"buy milk"}'')\<close>
      "[ValidationErrorUnverifiable]" first_DB]
    NewTask_unauthorized_uniform[of demo \<open>bearer token_SIGN (request ''{"text":"buy milk"}'')\<close>
      "[ValidationErrorSignatureInvalid]" first_DB]
    NewTask_unauthorized_uniform[of demo \<open>request ''{"text":"buy milk"}''\<close> "[]" first_DB]
  by (simp add: tokenString_bearer demo_Protect) (simp add: request_def)




text \<open>
  C9. A response of 401 or 400 leaves the store unchanged, and the store changes only
  after both the authorization gate and the JSON binding have succeeded.
\<close>

theorem NewTask_errors_leave_store:
  "(status (snd (NewTask d db c)) \<in> {401, 400} \<longrightarrow> fst (NewTask d db c) = db) \<and>
   (fst (NewTask d db c) \<noteq> db \<longrightarrow>
      Protect d (tokenString c) = None \<and> (\<exists>todo. ShouldBindJSON d (Body c) = Inr todo))"
proof -
  have s: "fst (NewTask d db c) \<noteq> db \<Longrightarrow>
      Protect d (tokenString c) = None \<and> (\<exists>todo. ShouldBindJSON d (Body c) = Inr todo) \<and>
      status (snd (NewTask d db c)) = 201"
    by (rule NewTask_store)
  have "fst (NewTask d db c) = db" if "status (snd (NewTask d db c)) \<in> {401, 400}"
  proof (rule ccontr)
    assume "fst (NewTask d db c) \<noteq> db"
    from s[OF this] that show False by auto
  qed
  with s show ?thesis by blast
qed

text \<open>
  C9 at concrete requests on a store of one row: a rejected token, a rejected body,
  and an accepted request, which is the one that changes the store.
\<close>

theorem NewTask_errors_leave_store_witness:
  \<open>status (snd (NewTask demo first_DB (bearer token_SIGN (request ''{"text":"buy milk"}''))))
     \<in> {401, 400} \<and>
   fst (NewTask demo first_DB (bearer token_SIGN (request ''{"text":"buy milk"}''))) = first_DB \<and>
   status (snd (NewTask demo first_DB (bearer token_placeholder (request bad_body))))
     \<in> {401, 400} \<and>
   fst (NewTask demo first_DB (bearer token_placeholder (request bad_body))) = first_DB \<and>
   fst (NewTask demo first_DB (bearer token_placeholder (request ''{"text":"buy milk"}'')))
     \<noteq> first_DB \<and>
   Protect demo (tokenString (bearer token_placeholder (request ''{"text":"buy milk"}''))) = None \<and>
   (\<exists>todo. ShouldBindJSON demo
      (Body (bearer token_placeholder (request ''{"text":"buy milk"}''))) = Inr todo)\<close>
  using
    NewTask_errors_leave_store[of demo first_DB
      \<open>bearer token_SIGN (request ''{"text":"buy milk"}'')\<close>]
    NewTask_errors_leave_store[of demo first_DB \<open>bearer token_placeholder (request bad_body)\<close>]
    NewTask_errors_leave_store[of demo first_DB
      \<open>bearer token_placeholder (request ''{"text":"buy milk"}'')\<close>]
  by (simp add: demo_NewTask_errors demo_store_changed)

text \<open>
  C6, as stated, fails: a valid token and the well-formed body \<open>{"text":"buy milk"}\<close>
  are not always answered with 201. On a store whose connection is closed, and on a
  store whose largest key is \<open>2 ^ 63 - 1\<close>, the write fails and the response is 500 with
  the error, the store unchanged.
\<close>

theorem NewTask_write_failure_counterexample:
  \<open>Protect demo
     (tokenString (bearer token_placeholder (request ''{"text":"buy milk"}''))) = None \<and>
   json_Valid demo ''{"text":"buy milk"}'' \<and>
   json_scan demo ''{"text":"buy milk"}'' = Inr (JObject [(''text'', JString ''buy milk'')], []) \<and>
   NewTask demo closed_DB (bearer token_placeholder (request ''{"text":"buy milk"}'')) =
     (closed_DB, \<lparr>status = 500, body = Some [(''error'', HString ''sql: database is closed'')]\<rparr>) \<and>
   NewTask demo full_DB (bearer token_placeholder (request ''{"text":"buy milk"}'')) =
     (full_DB, \<lparr>status = 500, body = Some [(''error'', HString ''database or disk is full'')]\<rparr>)\<close>
  by (simp add: tokenString_bearer demo_Protect json_Valid_def demo_scan demo_NewTask_closed
      demo_NewTask_full)

text \<open>
  C6, amended. Take a valid token and a body whose JSON value is the object
  \<open>{"text": S}\<close>. When the store accepts the write, which it does when its handle is
  usable and every key in it is below \<open>2 ^ 63 - 1\<close>, NewTask answers 201 with the object
  \<open>{"ID": i}\<close>, where \<open>i\<close> is above the \<open>ID\<close> of every row stored before, and appends
  the row with that \<open>ID\<close> and the title \<open>S\<close>, for every \<open>S\<close>, the empty string
  included. On every other store the write fails: NewTask answers 500 with the error
  and stores nothing.
\<close>

theorem NewTask_created:
  "(Protect d (tokenString c) = None \<and>
    json_scan d (Body c) = Inr (JObject [(''text'', JString S)], rest) \<and>
    broken db = None \<and> (\<forall>r \<in> set (rows db). ID r < 2 ^ 63 - 1) \<longrightarrow>
      (\<exists>i. NewTask d db c =
           (db\<lparr>rows := rows db @ [\<lparr>ID = i, CreatedAt = Now d, UpdatedAt = Now d,
                                    DeletedAt = (0, False), Title = S\<rparr>]\<rparr>,
            \<lparr>status = 201, body = Some [(''ID'', HUint i)]\<rparr>) \<and>
           (\<forall>r \<in> set (rows db). ID r < i) \<and> i < 2 ^ 63)) \<and>
   (Protect d (tokenString c) = None \<and>
    json_scan d (Body c) = Inr (JObject [(''text'', JString S)], rest) \<and>
    (broken db \<noteq> None \<or> (\<exists>r \<in> set (rows db). 2 ^ 63 - 1 \<le> ID r)) \<longrightarrow>
      (\<exists>e. NewTask d db c =
           (db, \<lparr>status = 500, body = Some [(''error'', HString (Error_of d e))]\<rparr>)))"
proof -
  have a: "\<exists>i. NewTask d db c =
           (db\<lparr>rows := rows db @ [\<lparr>ID = i, CreatedAt = Now d, UpdatedAt = Now d,
                                    DeletedAt = (0, False), Title = S\<rparr>]\<rparr>,
            \<lparr>status = 201, body = Some [(''ID'', HUint i)]\<rparr>) \<and>
           (\<forall>r \<in> set (rows db). ID r < i) \<and> i < 2 ^ 63"
    if "Protect d (tokenString c) = None"
      and "json_scan d (Body c) = Inr (JObject [(''text'', JString S)], rest)"
      and "broken db = None" and "\<forall>r \<in> set (rows db). ID r < 2 ^ 63 - 1"
    using NewTask_created_aux[OF that(1) bind_text[OF that(2)] that(3,4)] .
  have b: "\<exists>e. NewTask d db c =
           (db, \<lparr>status = 500, body = Some [(''error'', HString (Error_of d e))]\<rparr>)"
    if "Protect d (tokenString c) = None"
      and "json_scan d (Body c) = Inr (JObject [(''text'', JString S)], rest)"
      and "broken db \<noteq> None \<or> (\<exists>r \<in> set (rows db). 2 ^ 63 - 1 \<le> ID r)"
    using NewTask_write_fails_aux[OF that(1) bind_text[OF that(2)] that(3)] .
  from a b show ?thesis by blast
qed

text \<open>
  C6, amended, at concrete requests: on a store whose only row has \<open>ID\<close> 1 the empty
  title is stored and \<open>{"text":"buy milk"}\<close> is answered with \<open>{"ID":2}\<close>; on the
  closed store the answer is 500.
\<close>

theorem NewTask_created_witness:
  \<open>Protect demo (tokenString (bearer token_placeholder (request ''{"text":""}''))) = None \<and>
   json_scan demo (Body (bearer token_placeholder (request ''{"text":""}''))) =
     Inr (JObject [(''text'', JString [])], []) \<and>
   broken first_DB = None \<and>
   (\<exists>i. NewTask demo first_DB (bearer token_placeholder (request ''{"text":""}'')) =
           (first_DB\<lparr>rows := rows first_DB @ [\<lparr>ID = i, CreatedAt = Now demo, UpdatedAt = Now demo,
                                    DeletedAt = (0, False), Title = []\<rparr>]\<rparr>,
            \<lparr>status = 201, body = Some [(''ID'', HUint i)]\<rparr>) \<and>
        (\<forall>r \<in> set (rows first_DB). ID r < i) \<and> i < 2 ^ 63) \<and>
   snd (NewTask demo first_DB (bearer token_placeholder (request ''{"text":"buy milk"}''))) =
     \<lparr>status = 201, body = Some [(''ID'', HUint 2)]\<rparr> \<and>
   broken closed_DB \<noteq> None \<and>
   (\<exists>e. NewTask demo closed_DB (bearer token_placeholder (request ''{"text":""}'')) =
      (closed_DB, \<lparr>status = 500, body = Some [(''error'', HString (Error_of demo e))]\<rparr>))\<close>
proof -
  have f: "broken first_DB = None" "\<forall>r \<in> set (rows first_DB). ID r < 2 ^ 63 - 1"
    by (simp_all add: first_DB_def)
  have g: "broken closed_DB \<noteq> None" by (simp add: closed_DB_def)
  show ?thesis
    using
      NewTask_created[of demo \<open>bearer token_placeholder (request ''{"text":""}'')\<close> "[]" "[]"
        first_DB]
      NewTask_created[of demo \<open>bearer token_placeholder (request ''{"text":""}'')\<close> "[]" "[]"
        closed_DB]
      f g
    by (simp only: tokenString_bearer Body_bearer demo_Protect demo_scan demo_NewTask) simp
qed




section \<open>The process lifecycle\<close>




end
